theory Spec2Isabelle
  imports Complex_Main
begin

section \<open>The clustering demo \<open>cluster2.py\<close>: data model\<close>

text \<open>
  The script is glue over three external libraries (scikit-learn, NumPy, Bokeh).  The
  script's own code is embedded below; what it calls in the libraries is a parameter of
  the embedding (the record \<open>sklearn\<close>), so that every theorem speaks about the script
  for any behaviour of the libraries, or under an explicitly stated contract on them.

  Floating-point numbers are opaque to the script: it never computes with a coordinate,
  it only hands arrays to the libraries and splits them into columns.  They are written
  as \<open>real\<close>.
\<close>

datatype exc = IndexError | ValueError | LibraryError string

type_synonym point = "real \<times> real"
type_synonym pointset = "point list"
type_synonym labels = "int list"

text \<open>
  A (sparse) matrix as SciPy holds it: a shape and the entries.  Entries outside the
  shape are never read.
\<close>

record matrix =
  nrows :: nat
  ncols :: nat
  entry :: "nat \<Rightarrow> nat \<Rightarrow> real"

text \<open>\<open>A.T\<close>, \<open>A + B\<close> (which raises on shapes that differ) and \<open>c * A\<close>.\<close>

definition mtranspose :: "matrix \<Rightarrow> matrix" where
  "mtranspose A = \<lparr>nrows = ncols A, ncols = nrows A, entry = (\<lambda>i j. entry A j i)\<rparr>"

definition madd :: "matrix \<Rightarrow> matrix \<Rightarrow> exc + matrix" where
  "madd A B =
     (if nrows A = nrows B \<and> ncols A = ncols B
      then Inr \<lparr>nrows = nrows A, ncols = ncols A, entry = (\<lambda>i j. entry A i j + entry B i j)\<rparr>
      else Inl ValueError)"

definition mscale :: "real \<Rightarrow> matrix \<Rightarrow> matrix" where
  "mscale c A = \<lparr>nrows = nrows A, ncols = ncols A, entry = (\<lambda>i j. c * entry A i j)\<rparr>"

text \<open>
  The estimator objects the dispatcher constructs, each with the keyword arguments the
  script passes.  \<open>AgglomerativeClustering\<close> carries n_clusters, linkage, affinity and
  connectivity; the \<open>Ward\<close> branch passes no affinity, so the library default
  \<open>euclidean\<close> is written out there.
\<close>

datatype estimator =
    MiniBatchKMeans int
  | AffinityPropagation real real
  | MeanShift real bool
  | SpectralClustering int string string
  | AgglomerativeClustering int string string matrix
  | Birch int
  | DBSCAN real

text \<open>
  The library calls of the script.  \<open>'g\<close> is the state of NumPy's global random
  generator, threaded through the calls that draw from it; \<open>'f\<close> is a fitted estimator.
  Every call may raise.  \<open>labels_attr\<close> reads the attribute \<open>labels_\<close> of a fitted
  estimator; it is \<open>None\<close> where \<open>hasattr(model, 'labels_')\<close> is false.
\<close>

record ('g, 'f) sklearn =
  seed :: "int \<Rightarrow> 'g"
  fit_transform :: "pointset \<Rightarrow> exc + pointset"
  estimate_bandwidth :: "pointset \<Rightarrow> real \<Rightarrow> exc + real"
  kneighbors_graph :: "pointset \<Rightarrow> int \<Rightarrow> bool \<Rightarrow> exc + matrix"
  fit :: "estimator \<Rightarrow> pointset \<Rightarrow> 'g \<Rightarrow> (exc + 'f) \<times> 'g"
  labels_attr :: "'f \<Rightarrow> labels option"
  predict :: "'f \<Rightarrow> pointset \<Rightarrow> exc + labels"
  make_circles :: "int \<Rightarrow> real \<Rightarrow> real \<Rightarrow> 'g \<Rightarrow> (exc + pointset \<times> labels) \<times> 'g"
  make_moons :: "int \<Rightarrow> real \<Rightarrow> 'g \<Rightarrow> (exc + pointset \<times> labels) \<times> 'g"
  make_blobs :: "int \<Rightarrow> int \<Rightarrow> exc + pointset \<times> labels"
  random_rand :: "int \<Rightarrow> int \<Rightarrow> 'g \<Rightarrow> (exc + pointset) \<times> 'g"

text \<open>What a call leaves behind besides its value: the generator and the printed lines.\<close>

record 'g world =
  rng :: 'g
  stdout :: "string list"

section \<open>The palette and the recolor step\<close>

text \<open>\<open>bokeh.palettes.Spectral6\<close>, and \<open>spectral = np.hstack([Spectral6] * 20)\<close>.\<close>

definition Spectral6 :: "string list" where
  "Spectral6 = [''#3288bd'', ''#99d594'', ''#e6f598'', ''#fee08b'', ''#fc8d59'', ''#d53e4f'']"

definition spectral :: "string list" where
  "spectral = concat (replicate 20 Spectral6)"

text \<open>
  \<open>a[i]\<close> on an array of \<open>len\<close> entries: \<open>i\<close> in \<open>[0, len)\<close> reads entry \<open>i\<close>,
  \<open>i\<close> in \<open>[-len, 0)\<close> reads entry \<open>len + i\<close>, anything else raises.
\<close>

definition getitem :: "'a list \<Rightarrow> int \<Rightarrow> exc + 'a" where
  "getitem xs i =
     (if 0 \<le> i \<and> i < int (length xs) then Inr (xs ! nat i)
      else if - int (length xs) \<le> i \<and> i < 0 then Inr (xs ! nat (int (length xs) + i))
      else Inl IndexError)"

text \<open>
  \<open>colors = [spectral[i] for i in y_pred]\<close>: the comprehension stops at the first index
  that raises.
\<close>

fun recolor :: "labels \<Rightarrow> exc + string list" where
  "recolor [] = Inr []"
| "recolor (i # is) =
     (case getitem spectral i of
        Inl e \<Rightarrow> Inl e
      | Inr c \<Rightarrow> (case recolor is of Inl e \<Rightarrow> Inl e | Inr cs \<Rightarrow> Inr (c # cs)))"

section \<open>The clustering dispatcher\<close>

text \<open>
  \<open>connectivity = kneighbors_graph(X, n_neighbors=10, include_self=False)\<close> followed by
  \<open>connectivity = 0.5 * (connectivity + connectivity.T)\<close>.
\<close>

definition connectivity :: "('g, 'f) sklearn \<Rightarrow> pointset \<Rightarrow> exc + matrix" where
  "connectivity lib X =
     (case kneighbors_graph lib X 10 False of
        Inl e \<Rightarrow> Inl e
      | Inr G \<Rightarrow>
          (case madd G (mtranspose G) of
             Inl e \<Rightarrow> Inl e
           | Inr S \<Rightarrow> Inr (mscale (1 / 2) S)))"

definition notice :: string where
  "notice = ''No Algorithm selected. Default is MiniBatchKMeans''"

text \<open>
  The \<open>if\<close>/\<open>elif\<close> chain that binds \<open>model\<close>: the estimator constructed and the
  lines printed on the way.
\<close>

definition model :: "string \<Rightarrow> int \<Rightarrow> real \<Rightarrow> matrix \<Rightarrow> estimator \<times> string list" where
  "model algorithm n_clusters bandwidth conn =
     (if algorithm = ''MiniBatchKMeans'' then (MiniBatchKMeans n_clusters, [])
      else if algorithm = ''AffinityPropagation'' then (AffinityPropagation (9 / 10) (- 200), [])
      else if algorithm = ''MeanShift'' then (MeanShift bandwidth True, [])
      else if algorithm = ''SpectralClustering''
        then (SpectralClustering n_clusters ''arpack'' ''nearest_neighbors'', [])
      else if algorithm = ''Ward''
        then (AgglomerativeClustering n_clusters ''ward'' ''euclidean'' conn, [])
      else if algorithm = ''AgglomerativeClustering''
        then (AgglomerativeClustering n_clusters ''average'' ''cityblock'' conn, [])
      else if algorithm = ''Birch'' then (Birch n_clusters, [])
      else if algorithm = ''DBSCAN'' then (DBSCAN (2 / 10), [])
      else (MiniBatchKMeans n_clusters, [notice]))"

text \<open>
  \<open>y_pred\<close>: the fitted labels where the estimator has the attribute, \<open>predict\<close> on the
  same data otherwise.  (\<open>astype(np.int)\<close> leaves integer labels as they are.)
\<close>

definition y_pred :: "('g, 'f) sklearn \<Rightarrow> 'f \<Rightarrow> pointset \<Rightarrow> exc + labels" where
  "y_pred lib f X = (case labels_attr lib f of Some l \<Rightarrow> Inr l | None \<Rightarrow> predict lib f X)"

text \<open>
  The first four statements of \<open>clustering\<close>: standardize, estimate the bandwidth,
  build the connectivity matrix.  They do not depend on the algorithm.
\<close>

definition preprocess :: "('g, 'f) sklearn \<Rightarrow> pointset \<Rightarrow> exc + pointset \<times> real \<times> matrix" where
  "preprocess lib X =
     (case fit_transform lib X of
        Inl e \<Rightarrow> Inl e
      | Inr X' \<Rightarrow>
     (case estimate_bandwidth lib X' (3 / 10) of
        Inl e \<Rightarrow> Inl e
      | Inr bandwidth \<Rightarrow>
     (case connectivity lib X' of
        Inl e \<Rightarrow> Inl e
      | Inr conn \<Rightarrow> Inr (X', bandwidth, conn))))"

text \<open>
  \<open>model.fit(X)\<close> and the extraction of \<open>y_pred\<close> that follows it.
\<close>

definition fit_labels ::
  "('g, 'f) sklearn \<Rightarrow> estimator \<Rightarrow> pointset \<Rightarrow> 'g \<Rightarrow> (exc + labels) \<times> 'g" where
  "fit_labels lib m X g =
     (case fit lib m X g of
        (Inl e, g') \<Rightarrow> (Inl e, g')
      | (Inr f, g') \<Rightarrow> (y_pred lib f X, g'))"

definition clustering ::
  "('g, 'f) sklearn \<Rightarrow> pointset \<Rightarrow> string \<Rightarrow> int \<Rightarrow> 'g world
     \<Rightarrow> (exc + pointset \<times> labels) \<times> 'g world" where
  "clustering lib X algorithm n_clusters w =
     (case preprocess lib X of
        Inl e \<Rightarrow> (Inl e, w)
      | Inr (X', bandwidth, conn) \<Rightarrow>
     (case model algorithm n_clusters bandwidth conn of
        (m, out) \<Rightarrow>
     (case fit_labels lib m X' (rng w) of
        (Inl e, g) \<Rightarrow> (Inl e, \<lparr>rng = g, stdout = stdout w @ out\<rparr>)
      | (Inr l, g) \<Rightarrow> (Inr (X', l), \<lparr>rng = g, stdout = stdout w @ out\<rparr>))))"

definition clustering_algorithms :: "string list" where
  "clustering_algorithms =
     [''MiniBatchKMeans'', ''AffinityPropagation'', ''MeanShift'', ''SpectralClustering'',
      ''Ward'', ''AgglomerativeClustering'', ''DBSCAN'', ''Birch'']"



section \<open>The dataset generator\<close>

definition datasets_names :: "string list" where
  "datasets_names = [''Noisy Circles'', ''Noisy Moons'', ''Blobs'', ''No Structure'']"

definition get_dataset ::
  "('g, 'f) sklearn \<Rightarrow> string \<Rightarrow> int \<Rightarrow> 'g world
     \<Rightarrow> (exc + pointset \<times> labels option) \<times> 'g world" where
  "get_dataset lib dataset n_samples w =
     (if dataset = ''Noisy Circles'' then
        (case make_circles lib n_samples (5 / 10) (5 / 100) (rng w) of
           (Inl e, g) \<Rightarrow> (Inl e, w\<lparr>rng := g\<rparr>)
         | (Inr (X, y), g) \<Rightarrow> (Inr (X, Some y), w\<lparr>rng := g\<rparr>))
      else if dataset = ''Noisy Moons'' then
        (case make_moons lib n_samples (5 / 100) (rng w) of
           (Inl e, g) \<Rightarrow> (Inl e, w\<lparr>rng := g\<rparr>)
         | (Inr (X, y), g) \<Rightarrow> (Inr (X, Some y), w\<lparr>rng := g\<rparr>))
      else if dataset = ''Blobs'' then
        (case make_blobs lib n_samples 8 of
           Inl e \<Rightarrow> (Inl e, w)
         | Inr (X, y) \<Rightarrow> (Inr (X, Some y), w))
      else
        (case random_rand lib n_samples 2 (rng w) of
           (Inl e, g) \<Rightarrow> (Inl e, w\<lparr>rng := g\<rparr>)
         | (Inr X, g) \<Rightarrow> (Inr (X, None), w\<lparr>rng := g\<rparr>)))"

section \<open>Session state and the four callbacks\<close>

text \<open>
  \<open>source.data\<close> has the three columns the script creates it with.  The session is what
  the module's globals and widgets hold: the global \<open>X\<close> and \<open>y\<close>, the data source, the
  plot title (\<open>title=None\<close> at first) and the values of the four widgets.
\<close>

record column_data_source =
  data_x :: "real list"
  data_y :: "real list"
  data_colors :: "string list"

record 'g session =
  global_X :: pointset
  global_y :: "labels option"
  source :: column_data_source
  plot_title :: "string option"
  algorithm_select :: string
  dataset_select :: string
  samples_slider :: real
  clusters_slider :: real
  world :: "'g world"

text \<open>\<open>int(v)\<close> of a float: truncation towards zero.\<close>

definition py_int :: "real \<Rightarrow> int" where
  "py_int v = (if 0 \<le> v then \<lfloor>v\<rfloor> else \<lceil>v\<rceil>)"

text \<open>
  The three assignments \<open>source.data['x'] = X[:, 0]\<close>, \<open>source.data['y'] = X[:, 1]\<close>,
  \<open>source.data['colors'] = colors\<close>.
\<close>

definition set_columns :: "pointset \<Rightarrow> string list \<Rightarrow> column_data_source \<Rightarrow> column_data_source" where
  "set_columns X cs d = d\<lparr>data_x := map fst X, data_y := map snd X, data_colors := cs\<rparr>"

text \<open>
  A callback returns the exception that ended it, if any, and the session it leaves.
  An assignment to a global has happened once the statement that makes it has run, also
  when a later statement raises.
\<close>

definition update_algorithm :: "('g, 'f) sklearn \<Rightarrow> 'g session \<Rightarrow> exc option \<times> 'g session" where
  "update_algorithm lib s =
     (let algorithm = algorithm_select s;
          n_clusters = py_int (clusters_slider s)
      in case clustering lib (global_X s) algorithm n_clusters (world s) of
           (Inl e, w) \<Rightarrow> (Some e, s\<lparr>world := w\<rparr>)
         | (Inr (X, yp), w) \<Rightarrow>
             (case recolor yp of
                Inl e \<Rightarrow> (Some e, s\<lparr>global_X := X, world := w\<rparr>)
              | Inr cs \<Rightarrow>
                  (None, s\<lparr>global_X := X, world := w,
                            source := set_columns X cs (source s),
                            plot_title := Some algorithm\<rparr>)))"

definition update_dataset :: "('g, 'f) sklearn \<Rightarrow> 'g session \<Rightarrow> exc option \<times> 'g session" where
  "update_dataset lib s =
     (let dataset = dataset_select s;
          algorithm = algorithm_select s;
          n_clusters = py_int (clusters_slider s);
          n_samples = py_int (samples_slider s)
      in case get_dataset lib dataset n_samples (world s) of
           (Inl e, w0) \<Rightarrow> (Some e, s\<lparr>world := w0\<rparr>)
         | (Inr (X0, y0), w0) \<Rightarrow>
             (case clustering lib X0 algorithm n_clusters w0 of
                (Inl e, w) \<Rightarrow> (Some e, s\<lparr>global_X := X0, global_y := y0, world := w\<rparr>)
              | (Inr (X, yp), w) \<Rightarrow>
                  (case recolor yp of
                     Inl e \<Rightarrow> (Some e, s\<lparr>global_X := X, global_y := y0, world := w\<rparr>)
                   | Inr cs \<Rightarrow>
                       (None, s\<lparr>global_X := X, global_y := y0, world := w,
                                 source := set_columns X cs (source s)\<rparr>))))"

text \<open>
  \<open>update_samples\<close> has no \<open>global\<close> statement: its \<open>X\<close> and \<open>y\<close> are locals of the
  call, and the module's \<open>X\<close> and \<open>y\<close> are not assigned.
\<close>

definition update_samples :: "('g, 'f) sklearn \<Rightarrow> 'g session \<Rightarrow> exc option \<times> 'g session" where
  "update_samples lib s =
     (let dataset = dataset_select s;
          algorithm = algorithm_select s;
          n_clusters = py_int (clusters_slider s);
          n_samples = py_int (samples_slider s)
      in case get_dataset lib dataset n_samples (world s) of
           (Inl e, w0) \<Rightarrow> (Some e, s\<lparr>world := w0\<rparr>)
         | (Inr (X0, y0), w0) \<Rightarrow>
             (case clustering lib X0 algorithm n_clusters w0 of
                (Inl e, w) \<Rightarrow> (Some e, s\<lparr>world := w\<rparr>)
              | (Inr (X, yp), w) \<Rightarrow>
                  (case recolor yp of
                     Inl e \<Rightarrow> (Some e, s\<lparr>world := w\<rparr>)
                   | Inr cs \<Rightarrow>
                       (None, s\<lparr>world := w, source := set_columns X cs (source s)\<rparr>))))"

definition update_clusters :: "('g, 'f) sklearn \<Rightarrow> 'g session \<Rightarrow> exc option \<times> 'g session" where
  "update_clusters lib s =
     (let algorithm = algorithm_select s;
          n_clusters = py_int (clusters_slider s);
          n_samples = py_int (samples_slider s)
      in case clustering lib (global_X s) algorithm n_clusters (world s) of
           (Inl e, w) \<Rightarrow> (Some e, s\<lparr>world := w\<rparr>)
         | (Inr (X, yp), w) \<Rightarrow>
             (case recolor yp of
                Inl e \<Rightarrow> (Some e, s\<lparr>global_X := X, world := w\<rparr>)
              | Inr cs \<Rightarrow>
                  (None, s\<lparr>global_X := X, world := w,
                            source := set_columns X cs (source s)\<rparr>)))"

text \<open>
  The module's top level up to the widgets: seed the generator, make the default
  dataset, standardize it, colour it by its ground-truth labels.
\<close>

definition startup :: "('g, 'f) sklearn \<Rightarrow> exc + 'g session" where
  "startup lib =
     (case make_circles lib 1500 (5 / 10) (5 / 100) (seed lib 0) of
        (Inl e, g) \<Rightarrow> Inl e
      | (Inr (X0, y0), g) \<Rightarrow>
     (case fit_transform lib X0 of
        Inl e \<Rightarrow> Inl e
      | Inr X \<Rightarrow>
     (case estimate_bandwidth lib X (3 / 10) of
        Inl e \<Rightarrow> Inl e
      | Inr bandwidth \<Rightarrow>
     (case connectivity lib X of
        Inl e \<Rightarrow> Inl e
      | Inr conn \<Rightarrow>
     (case recolor y0 of
        Inl e \<Rightarrow> Inl e
      | Inr cs \<Rightarrow>
          Inr \<lparr>global_X = X, global_y = Some y0,
               source = \<lparr>data_x = map fst X, data_y = map snd X, data_colors = cs\<rparr>,
               plot_title = None,
               algorithm_select = ''MiniBatchKMeans'',
               dataset_select = ''Noisy Circles'',
               samples_slider = 1500,
               clusters_slider = 2,
               world = \<lparr>rng = g, stdout = []\<rparr>\<rparr>)))))"

section \<open>Contracts of the libraries\<close>






text \<open>The generators, asked for \<open>n\<close> samples, return \<open>n\<close> points (and \<open>n\<close> labels).\<close>

definition generates :: "('g, 'f) sklearn \<Rightarrow> int \<Rightarrow> bool" where
  "generates lib n \<longleftrightarrow>
     (\<forall>g. \<exists>X y g'. make_circles lib n (5 / 10) (5 / 100) g = (Inr (X, y), g')
          \<and> int (length X) = n \<and> int (length y) = n) \<and>
     (\<forall>g. \<exists>X y g'. make_moons lib n (5 / 100) g = (Inr (X, y), g')
          \<and> int (length X) = n \<and> int (length y) = n) \<and>
     (\<exists>X y. make_blobs lib n 8 = Inr (X, y) \<and> int (length X) = n \<and> int (length y) = n) \<and>
     (\<forall>g. \<exists>X g'. random_rand lib n 2 g = (Inr X, g') \<and> int (length X) = n)"

section \<open>A small instance of the libraries\<close>

text \<open>
  An executable stand-in for the libraries, used to run the script on concrete inputs.
  The generator state counts the calls that drew from it.  \<open>stub_fit\<close> labels the rows
  round-robin for the k-means estimators, marks every row as noise (\<open>-1\<close>) for DBSCAN,
  and leaves a mean-shift estimator without fitted labels, so that \<open>predict\<close> is used.
\<close>

definition stub_points :: "int \<Rightarrow> pointset" where
  "stub_points n = map (\<lambda>k. (real k, real (k mod 2))) [0..<nat n]"

definition stub_labels :: "int \<Rightarrow> labels" where
  "stub_labels n = map (\<lambda>k. int (k mod 2)) [0..<nat n]"

definition stub_graph :: "pointset \<Rightarrow> int \<Rightarrow> bool \<Rightarrow> exc + matrix" where
  "stub_graph X k self =
     (if int (length X) \<le> k then Inl ValueError
      else Inr \<lparr>nrows = length X, ncols = length X,
                entry = (\<lambda>i j. if j = (i + 1) mod length X then 1 else 0)\<rparr>)"

definition stub_fit :: "estimator \<Rightarrow> pointset \<Rightarrow> nat \<Rightarrow> (exc + labels option) \<times> nat" where
  "stub_fit m X g =
     (case m of
        MiniBatchKMeans k \<Rightarrow>
          (if k \<le> 0 then (Inl ValueError, g)
           else (Inr (Some (map (\<lambda>i. int i mod k) [0..<length X])), Suc g))
      | MeanShift b s \<Rightarrow> (Inr None, g)
      | DBSCAN eps \<Rightarrow> (Inr (Some (replicate (length X) (- 1))), g)
      | _ \<Rightarrow> (Inr (Some (replicate (length X) 0)), g))"

definition stub :: "(nat, labels option) sklearn" where
  "stub =
     \<lparr>seed = nat,
      fit_transform = (\<lambda>X. if X = [] then Inl ValueError
                            else Inr (map (\<lambda>p. (fst p - fst (hd X), snd p - snd (hd X))) X)),
      estimate_bandwidth = (\<lambda>X q. Inr 1),
      kneighbors_graph = stub_graph,
      fit = stub_fit,
      labels_attr = (\<lambda>f. f),
      predict = (\<lambda>f X. Inr (replicate (length X) 0)),
      make_circles = (\<lambda>n factor noise g.
          if n < 0 then (Inl ValueError, g) else (Inr (stub_points n, stub_labels n), Suc g)),
      make_moons = (\<lambda>n noise g.
          if n < 0 then (Inl ValueError, g) else (Inr (stub_points n, stub_labels n), Suc g)),
      make_blobs = (\<lambda>n random_state.
          if n < 0 then Inl ValueError else Inr (stub_points n, stub_labels n)),
      random_rand = (\<lambda>n d g.
          if n < 0 then (Inl ValueError, g) else (Inr (stub_points n), Suc g))\<rparr>"


text \<open>A session on twelve points, with \<open>DBSCAN\<close> and \<open>Blobs\<close> selected.\<close>

definition stub_session :: "nat session" where
  "stub_session =
     \<lparr>global_X = stub_points 12, global_y = Some (stub_labels 12),
      source = \<lparr>data_x = [], data_y = [], data_colors = []\<rparr>,
      plot_title = None,
      algorithm_select = ''DBSCAN'',
      dataset_select = ''Blobs'',
      samples_slider = 12,
      clusters_slider = 2,
      world = \<lparr>rng = 0, stdout = []\<rparr>\<rparr>"

section \<open>Properties of the recolor step\<close>

lemma length_Spectral6: "length Spectral6 = 6"
  by (simp add: Spectral6_def)

lemma length_spectral: "length spectral = 120"
  by (simp add: spectral_def length_concat length_Spectral6 sum_list_replicate)

lemma set_spectral: "set spectral = set Spectral6"
  by (simp add: spectral_def)

lemma nth_concat_replicate:
  "k < n * length xs \<Longrightarrow> concat (replicate n xs) ! k = xs ! (k mod length xs)"
proof (induction n arbitrary: k)
  case 0
  then show ?case by simp
next
  case (Suc n)
  show ?case
  proof (cases "k < length xs")
    case True
    then show ?thesis by (simp add: nth_append)
  next
    case False
    then have "k - length xs < n * length xs"
      using Suc.prems by simp
    from Suc.IH [OF this] False show ?thesis
      by (simp add: nth_append le_mod_geq)
  qed
qed

text \<open>The palette cycles: entry \<open>k\<close> of \<open>spectral\<close> is base colour \<open>k mod 6\<close>.\<close>

lemma spectral_nth: "k < 120 \<Longrightarrow> spectral ! k = Spectral6 ! (k mod 6)"
  using nth_concat_replicate [of k 20 Spectral6]
  by (simp add: spectral_def length_Spectral6)

lemma wrap_index: "- 120 \<le> i \<Longrightarrow> i < 0 \<Longrightarrow> i mod 120 = 120 + (i::int)"
proof -
  assume a: "- 120 \<le> i" "i < 0"
  have "i mod 120 = (120 + i) mod 120" by simp
  also have "\<dots> = 120 + i" using a by (intro mod_pos_pos_trivial) auto
  finally show ?thesis .
qed

lemma getitem_spectral_ok:
  "- 120 \<le> i \<Longrightarrow> i \<le> 119 \<Longrightarrow> getitem spectral i = Inr (spectral ! nat (i mod 120))"
  by (auto simp: getitem_def length_spectral wrap_index)

lemma getitem_spectral_raises:
  "i < - 120 \<or> 119 < i \<Longrightarrow> getitem spectral i = Inl IndexError"
  by (auto simp: getitem_def length_spectral)

lemma recolor_in_range:
  "\<forall>i\<in>set ls. - 120 \<le> i \<and> i \<le> 119 \<Longrightarrow>
     recolor ls = Inr (map (\<lambda>i. spectral ! nat (i mod 120)) ls)"
  by (induction ls) (simp_all add: getitem_spectral_ok)

lemma recolor_Inr_range:
  "recolor ls = Inr cs \<Longrightarrow> \<forall>i\<in>set ls. - 120 \<le> i \<and> i \<le> 119"
proof (induction ls arbitrary: cs)
  case Nil
  show ?case by simp
next
  case (Cons i ls)
  have "\<not> (i < - 120 \<or> 119 < i)"
    using Cons.prems getitem_spectral_raises [of i] by auto
  moreover obtain cs' where "recolor ls = Inr cs'"
    using Cons.prems by (auto split: sum.splits)
  ultimately show ?case using Cons.IH by auto
qed

lemma recolor_Inr_iff:
  "recolor ls = Inr cs \<longleftrightarrow>
     (\<forall>i\<in>set ls. - 120 \<le> i \<and> i \<le> 119) \<and> cs = map (\<lambda>i. spectral ! nat (i mod 120)) ls"
  using recolor_in_range [of ls] recolor_Inr_range [of ls cs] by auto

lemma palette_entry: "spectral ! nat (i mod 120) \<in> set Spectral6"
proof -
  have "nat (i mod 120) < length spectral"
    by (simp add: length_spectral nat_less_iff)
  then have "spectral ! nat (i mod 120) \<in> set spectral" by (rule nth_mem)
  then show ?thesis by (simp add: set_spectral)
qed

text \<open>
  C4, as the code has it.  The claim is stated for every LabelAssignment, but the index
  into the 120-entry palette is not guarded: a label of 120 raises.
\<close>

theorem recolor_label_120_raises: "recolor [120] = Inl IndexError"
  by (simp add: getitem_def length_spectral)

text \<open>
  C4 (amended): for every LabelAssignment whose labels lie in \<open>[-120, 119]\<close>, the recolor
  step returns a ColorAssignment of the same length; entry \<open>k\<close> is \<open>spectral[labels[k]]\<close>,
  where \<open>spectral\<close> is the 6-colour base palette repeated 20 times (120 entries), so every
  entry is one of the 6 base colours.
\<close>

theorem recolor_colors:
  assumes "\<forall>i\<in>set ls. - 120 \<le> i \<and> i \<le> 119"
  shows "\<exists>cs. recolor ls = Inr cs \<and> length cs = length ls
           \<and> (\<forall>k<length ls. getitem spectral (ls ! k) = Inr (cs ! k))
           \<and> set cs \<subseteq> set Spectral6
           \<and> length Spectral6 = 6 \<and> length spectral = 20 * length Spectral6"
proof -
  let ?cs = "map (\<lambda>i. spectral ! nat (i mod 120)) ls"
  have r: "recolor ls = Inr ?cs"
    using assms by (rule recolor_in_range)
  have g: "\<forall>k<length ls. getitem spectral (ls ! k) = Inr (?cs ! k)"
    using assms by (simp add: getitem_spectral_ok)
  have s: "set ?cs \<subseteq> set Spectral6"
    using palette_entry by auto
  show ?thesis
    using r g s by (intro exI [of _ ?cs]) (simp add: length_Spectral6 length_spectral)
qed

theorem recolor_colors_witness:
  "\<exists>cs. recolor [0, 1, 5, 6, 119, - 120] = Inr cs \<and> length cs = 6
        \<and> set cs \<subseteq> set Spectral6"
proof -
  have h: "\<forall>i\<in>set [0, 1, 5, 6, 119, - 120 :: int]. - 120 \<le> i \<and> i \<le> 119"
    by simp
  from recolor_colors [OF h] obtain cs where
    "recolor [0, 1, 5, 6, 119, - 120] = Inr cs"
    "length cs = length [0, 1, 5, 6, 119, - 120 :: int]"
    "set cs \<subseteq> set Spectral6"
    by blast
  then show ?thesis by (intro exI [of _ cs]) simp_all
qed

text \<open>
  C10: the recolor step succeeds exactly on the LabelAssignments whose labels lie in
  \<open>[-120, 119]\<close>; a negative label \<open>i\<close> in that range reads entry \<open>120 + i\<close> of the
  palette, and the noise label \<open>-1\<close> of DBSCAN gets the last base colour.
\<close>

theorem recolor_total_on_signed_range:
  "((\<exists>cs. recolor ls = Inr cs) \<longleftrightarrow> (\<forall>i\<in>set ls. - 120 \<le> i \<and> i \<le> 119))
   \<and> (\<forall>i. - 120 \<le> i \<and> i < 0 \<longrightarrow> getitem spectral i = Inr (spectral ! nat (120 + i)))
   \<and> recolor [- 1] = Inr [last Spectral6]"
proof (intro conjI allI impI)
  show "(\<exists>cs. recolor ls = Inr cs) \<longleftrightarrow> (\<forall>i\<in>set ls. - 120 \<le> i \<and> i \<le> 119)"
    by (simp add: recolor_Inr_iff)
next
  fix i :: int
  assume "- 120 \<le> i \<and> i < 0"
  then show "getitem spectral i = Inr (spectral ! nat (120 + i))"
    by (simp add: getitem_spectral_ok wrap_index)
next
  have "recolor [- 1] = Inr [Spectral6 ! 5]"
    by (simp add: getitem_def length_spectral spectral_nth)
  then show "recolor [- 1] = Inr [last Spectral6]"
    by (simp add: Spectral6_def)
qed

theorem recolor_total_on_signed_range_witness:
  "(\<exists>cs. recolor [- 1, 0, 119, - 120] = Inr cs)
   \<and> getitem spectral (- 1) = Inr (spectral ! 119)
   \<and> \<not> (\<exists>cs. recolor [- 121] = Inr cs)"
proof -
  have h: "\<forall>i\<in>set [- 1, 0, 119, - 120 :: int]. - 120 \<le> i \<and> i \<le> 119"
    by simp
  have a: "\<exists>cs. recolor [- 1, 0, 119, - 120] = Inr cs"
    using recolor_total_on_signed_range [of "[- 1, 0, 119, - 120]"] h by blast
  have "- 120 \<le> (- 1 :: int) \<and> (- 1 :: int) < 0" by simp
  then have "getitem spectral (- 1) = Inr (spectral ! nat (120 + (- 1)))"
    using recolor_total_on_signed_range [of "[]"] by blast
  then have b: "getitem spectral (- 1) = Inr (spectral ! 119)" by simp
  have c: "\<not> (\<exists>cs. recolor [- 121] = Inr cs)"
    using recolor_total_on_signed_range [of "[- 121]"] by simp
  from a b c show ?thesis by blast
qed

section \<open>Properties of the dispatcher\<close>

lemma model_unknown:
  "algorithm \<notin> set clustering_algorithms \<Longrightarrow>
     model algorithm n bw conn = (MiniBatchKMeans n, [notice])"
  by (simp add: model_def clustering_algorithms_def)

lemma model_MiniBatchKMeans: "model ''MiniBatchKMeans'' n bw conn = (MiniBatchKMeans n, [])"
  by (simp add: model_def)

lemma model_DBSCAN: "model ''DBSCAN'' n bw conn = (DBSCAN (2 / 10), [])"
  by (simp add: model_def)

lemma model_Ward:
  "model ''Ward'' n bw conn = (AgglomerativeClustering n ''ward'' ''euclidean'' conn, [])"
  by (simp add: model_def)

lemma model_AgglomerativeClustering:
  "model ''AgglomerativeClustering'' n bw conn =
     (AgglomerativeClustering n ''average'' ''cityblock'' conn, [])"
  by (simp add: model_def)


lemma clustering_preprocessed:
  "preprocess lib X = Inr (Xs, bw, conn) \<Longrightarrow>
   clustering lib X algorithm n w =
     (case fit_labels lib (fst (model algorithm n bw conn)) Xs (rng w) of
        (Inl e, g) \<Rightarrow> (Inl e, \<lparr>rng = g, stdout = stdout w @ snd (model algorithm n bw conn)\<rparr>)
      | (Inr l, g) \<Rightarrow> (Inr (Xs, l), \<lparr>rng = g, stdout = stdout w @ snd (model algorithm n bw conn)\<rparr>))"
  by (cases "model algorithm n bw conn") (simp add: clustering_def split: prod.splits sum.splits)

lemma clustering_raises:
  "preprocess lib X = Inl e \<Longrightarrow> clustering lib X algorithm n w = (Inl e, w)"
  by (simp add: clustering_def)

lemma clustering_DBSCAN:
  "clustering lib X ''DBSCAN'' c1 w = clustering lib X ''DBSCAN'' c2 w"
  by (simp add: clustering_def model_DBSCAN split: sum.splits prod.splits)

lemma connectivity_square:
  "kneighbors_graph lib Xs 10 False = Inr G \<Longrightarrow> nrows G = ncols G \<Longrightarrow>
     connectivity lib Xs =
       Inr \<lparr>nrows = nrows G, ncols = nrows G,
            entry = (\<lambda>i j. 1 / 2 * (entry G i j + entry G j i))\<rparr>"
  by (simp add: connectivity_def madd_def mtranspose_def mscale_def)

lemma connectivity_not_square:
  "kneighbors_graph lib Xs 10 False = Inr G \<Longrightarrow> nrows G \<noteq> ncols G \<Longrightarrow>
     connectivity lib Xs = Inl ValueError"
  by (simp add: connectivity_def madd_def mtranspose_def)

lemma connectivity_Inr:
  assumes "connectivity lib Xs = Inr conn"
  shows "\<exists>G. kneighbors_graph lib Xs 10 False = Inr G \<and> nrows G = ncols G
        \<and> conn = \<lparr>nrows = nrows G, ncols = nrows G,
                   entry = (\<lambda>i j. 1 / 2 * (entry G i j + entry G j i))\<rparr>"
proof (cases "kneighbors_graph lib Xs 10 False")
  case (Inl e)
  then show ?thesis using assms by (simp add: connectivity_def)
next
  case (Inr G)
  show ?thesis
  proof (cases "nrows G = ncols G")
    case True
    from connectivity_square [OF Inr True] assms Inr True show ?thesis by simp
  next
    case False
    from connectivity_not_square [OF Inr False] assms show ?thesis by simp
  qed
qed

lemma preprocess_Inr:
  "preprocess lib X = Inr (Xs, bw, conn) \<longleftrightarrow>
     fit_transform lib X = Inr Xs \<and> estimate_bandwidth lib Xs (3 / 10) = Inr bw
       \<and> connectivity lib Xs = Inr conn"
  by (auto simp: preprocess_def split: sum.splits)




subsection \<open>The stand-in library on concrete inputs\<close>

lemma stub_preprocess:
  assumes "10 < length X"
  shows "\<exists>Xs conn. preprocess stub X = Inr (Xs, 1, conn) \<and> length Xs = length X
           \<and> entry conn 0 1 = 1 / 2 \<and> entry conn 1 0 = 1 / 2"
proof -
  from assms have ne: "X \<noteq> []" by auto
  let ?Xs = "map (\<lambda>p. (fst p - fst (hd X), snd p - snd (hd X))) X"
  have ft: "fit_transform stub X = Inr ?Xs"
    using ne by (simp add: stub_def)
  have bw: "estimate_bandwidth stub ?Xs (3 / 10) = Inr 1"
    by (simp add: stub_def)
  let ?G = "\<lparr>nrows = length X, ncols = length X,
                entry = (\<lambda>i j. if j = (i + 1) mod length X then 1 else 0 :: real)\<rparr>"
  have kg: "kneighbors_graph stub ?Xs 10 False = Inr ?G"
    using assms by (simp add: stub_def stub_graph_def)
  have sq: "nrows ?G = ncols ?G" by simp
  note c = connectivity_square [OF kg sq]
  have "preprocess stub X = Inr (?Xs, 1, \<lparr>nrows = nrows ?G, ncols = nrows ?G,
            entry = (\<lambda>i j. 1 / 2 * (entry ?G i j + entry ?G j i))\<rparr>)"
    by (simp only: preprocess_def ft bw c sum.case)
  moreover have "(1::nat) mod length X = 1" using assms by simp
  ultimately show ?thesis using assms by simp
qed






lemma length_stub_points: "length (stub_points n) = nat n"
  by (simp add: stub_points_def)

lemma length_stub_labels: "length (stub_labels n) = nat n"
  by (simp add: stub_labels_def)

lemma stub_labels_range: "\<forall>i\<in>set (stub_labels n). - 120 \<le> i \<and> i \<le> 119"
  by (auto simp: stub_labels_def)

lemma stub_fit_labels_MiniBatchKMeans:
  "0 < k \<Longrightarrow> fit_labels stub (MiniBatchKMeans k) Xs g
     = (Inr (map (\<lambda>i. int i mod k) [0..<length Xs]), Suc g)"
  by (simp add: fit_labels_def y_pred_def stub_def stub_fit_def)

lemma stub_fit_labels_DBSCAN:
  "fit_labels stub (DBSCAN eps) Xs g = (Inr (replicate (length Xs) (- 1)), g)"
  by (simp add: fit_labels_def y_pred_def stub_def stub_fit_def)

lemma recolor_length: "recolor ls = Inr cs \<Longrightarrow> length cs = length ls"
  by (simp add: recolor_Inr_iff)

lemma stub_clustering_MiniBatchKMeans:
  assumes "10 < length X" and "0 < k" and "k \<le> 120"
  shows "\<exists>Xs yp cs g. clustering stub X ''MiniBatchKMeans'' k w
             = (Inr (Xs, yp), \<lparr>rng = g, stdout = stdout w\<rparr>)
           \<and> length Xs = length X \<and> recolor yp = Inr cs \<and> length cs = length X"
proof -
  from stub_preprocess [OF assms(1)] obtain Xs conn where
    p: "preprocess stub X = Inr (Xs, 1, conn)" and l: "length Xs = length X"
    by blast
  let ?yp = "map (\<lambda>i. int i mod k) [0..<length Xs]"
  have c: "clustering stub X ''MiniBatchKMeans'' k w
             = (Inr (Xs, ?yp), \<lparr>rng = Suc (rng w), stdout = stdout w\<rparr>)"
    using assms(2)
    by (simp add: clustering_preprocessed [OF p] model_MiniBatchKMeans
          stub_fit_labels_MiniBatchKMeans)
  have "\<forall>i\<in>set ?yp. - 120 \<le> i \<and> i \<le> 119"
  proof
    fix i assume "i \<in> set ?yp"
    then obtain j where "i = int j mod k" by auto
    moreover have "0 \<le> int j mod k" "int j mod k < k"
      using assms(2) by simp_all
    ultimately show "- 120 \<le> i \<and> i \<le> 119" using assms(3) by linarith
  qed
  from recolor_in_range [OF this] obtain cs where r: "recolor ?yp = Inr cs" by blast
  from recolor_length [OF r] have "length cs = length X" using l by simp
  with c l r show ?thesis by blast
qed

lemma stub_clustering_DBSCAN:
  assumes "10 < length X"
  shows "\<exists>Xs cs. clustering stub X ''DBSCAN'' k w
             = (Inr (Xs, replicate (length X) (- 1)), w)
           \<and> length Xs = length X
           \<and> recolor (replicate (length X) (- 1)) = Inr cs \<and> length cs = length X"
proof -
  from stub_preprocess [OF assms(1)] obtain Xs conn where
    p: "preprocess stub X = Inr (Xs, 1, conn)" and l: "length Xs = length X"
    by blast
  have c: "clustering stub X ''DBSCAN'' k w = (Inr (Xs, replicate (length X) (- 1)), w)"
    by (simp add: clustering_preprocessed [OF p] model_DBSCAN stub_fit_labels_DBSCAN l)
  have "\<forall>i\<in>set (replicate (length X) (- 1 :: int)). - 120 \<le> i \<and> i \<le> 119"
    by simp
  from recolor_in_range [OF this] obtain cs where
    r: "recolor (replicate (length X) (- 1)) = Inr cs" by blast
  from recolor_length [OF r] have "length cs = length X" by simp
  with c l r show ?thesis by blast
qed

lemma stub_startup:
  "\<exists>s0. startup stub = Inr s0 \<and> length (global_X s0) = 1500
      \<and> dataset_select s0 = ''Noisy Circles'' \<and> algorithm_select s0 = ''MiniBatchKMeans''
      \<and> samples_slider s0 = 1500 \<and> clusters_slider s0 = 2"
proof -
  have mc: "make_circles stub 1500 (5 / 10) (5 / 100) (seed stub 0)
              = (Inr (stub_points 1500, stub_labels 1500), 1)"
    by (simp add: stub_def)
  have "10 < length (stub_points 1500)" by (simp add: length_stub_points)
  from stub_preprocess [OF this] obtain Xs conn where
    p: "preprocess stub (stub_points 1500) = Inr (Xs, 1, conn)"
    and l: "length Xs = length (stub_points 1500)"
    by blast
  from p have ft: "fit_transform stub (stub_points 1500) = Inr Xs"
    and bw: "estimate_bandwidth stub Xs (3 / 10) = Inr 1"
    and cn: "connectivity stub Xs = Inr conn"
    by (simp_all add: preprocess_Inr)
  from recolor_in_range [OF stub_labels_range] obtain cs where
    r: "recolor (stub_labels 1500) = Inr cs" by blast
  show ?thesis
    unfolding startup_def mc prod.case sum.case ft bw cn r
    using l by (simp add: length_stub_points)
qed

subsection \<open>What a callback leaves when it ends\<close>

lemma py_int_of_int: "py_int (of_int k) = k"
  by (simp add: py_int_def)

lemma py_int_numeral: "py_int (numeral k) = numeral k"
  by (simp add: py_int_def)

lemma update_algorithm_completes:
  assumes "clustering lib (global_X s) (algorithm_select s) (py_int (clusters_slider s)) (world s)
             = (Inr (X, yp), w)"
      and "recolor yp = Inr cs"
  shows "update_algorithm lib s =
           (None, s\<lparr>global_X := X, world := w, source := set_columns X cs (source s),
                     plot_title := Some (algorithm_select s)\<rparr>)"
  using assms by (simp add: update_algorithm_def Let_def)

lemma update_algorithm_None:
  assumes "update_algorithm lib s = (None, s')"
  shows "\<exists>X yp w cs.
           clustering lib (global_X s) (algorithm_select s) (py_int (clusters_slider s)) (world s)
             = (Inr (X, yp), w)
         \<and> recolor yp = Inr cs
         \<and> s' = s\<lparr>global_X := X, world := w, source := set_columns X cs (source s),
                   plot_title := Some (algorithm_select s)\<rparr>"
  using assms by (auto simp: update_algorithm_def Let_def split: prod.splits sum.splits)

lemma update_algorithm_raises:
  assumes "update_algorithm lib s = (Some e, s')"
  shows "plot_title s' = plot_title s \<and> source s' = source s"
  using assms by (auto simp: update_algorithm_def Let_def split: prod.splits sum.splits)

lemma update_dataset_title: "plot_title (snd (update_dataset lib s)) = plot_title s"
  by (simp add: update_dataset_def Let_def split: prod.splits sum.splits)

lemma update_dataset_None:
  assumes "update_dataset lib s = (None, s')"
  shows "\<exists>X0 y0 w0 X yp w cs.
           get_dataset lib (dataset_select s) (py_int (samples_slider s)) (world s)
             = (Inr (X0, y0), w0)
         \<and> clustering lib X0 (algorithm_select s) (py_int (clusters_slider s)) w0
             = (Inr (X, yp), w)
         \<and> recolor yp = Inr cs
         \<and> s' = s\<lparr>global_X := X, global_y := y0, world := w,
                   source := set_columns X cs (source s)\<rparr>"
  using assms by (auto simp: update_dataset_def Let_def split: prod.splits sum.splits)

lemma update_samples_completes:
  assumes "get_dataset lib (dataset_select s) (py_int (samples_slider s)) (world s)
             = (Inr (X0, y0), w0)"
      and "clustering lib X0 (algorithm_select s) (py_int (clusters_slider s)) w0
             = (Inr (X, yp), w)"
      and "recolor yp = Inr cs"
  shows "update_samples lib s = (None, s\<lparr>world := w, source := set_columns X cs (source s)\<rparr>)"
  using assms by (simp add: update_samples_def Let_def)

lemma update_samples_globals:
  "global_X (snd (update_samples lib s)) = global_X s
   \<and> global_y (snd (update_samples lib s)) = global_y s"
  by (simp add: update_samples_def Let_def split: prod.splits sum.splits)

subsection \<open>Claims about the dispatcher\<close>

text \<open>
  C1: with an algorithm name that is not one of the eight, \<open>clustering\<close> returns what it
  returns for \<open>MiniBatchKMeans\<close> with the same cluster count, from the same state of the
  random generator (the same result or the same exception, and the same generator
  afterwards); the \<open>MiniBatchKMeans\<close> call prints nothing, and the call with the unknown
  name prints the notice, once, as soon as the preprocessing has returned.  The notice
  is a printed line and nothing else: the result is not affected.
\<close>

theorem unknown_algorithm_falls_back:
  assumes "algorithm \<notin> set clustering_algorithms"
  shows "fst (clustering lib X algorithm n w) = fst (clustering lib X ''MiniBatchKMeans'' n w)
       \<and> rng (snd (clustering lib X algorithm n w))
           = rng (snd (clustering lib X ''MiniBatchKMeans'' n w))
       \<and> stdout (snd (clustering lib X ''MiniBatchKMeans'' n w)) = stdout w
       \<and> stdout (snd (clustering lib X algorithm n w))
           = stdout w @ (if isl (preprocess lib X) then [] else [notice])"
proof (cases "preprocess lib X")
  case (Inl e)
  then show ?thesis by (simp add: clustering_raises)
next
  case (Inr p)
  obtain Xs bw conn where p: "p = (Xs, bw, conn)" by (cases p)
  have pre: "preprocess lib X = Inr (Xs, bw, conn)" using Inr p by simp
  show ?thesis
    using assms
    by (simp add: clustering_preprocessed [OF pre] pre model_unknown model_MiniBatchKMeans
          split: prod.splits sum.splits)
qed

theorem unknown_algorithm_falls_back_witness:
  "fst (clustering stub (stub_points 12) ''KMeans'' 3 \<lparr>rng = 0, stdout = []\<rparr>)
     = fst (clustering stub (stub_points 12) ''MiniBatchKMeans'' 3 \<lparr>rng = 0, stdout = []\<rparr>)
   \<and> stdout (snd (clustering stub (stub_points 12) ''KMeans'' 3 \<lparr>rng = 0, stdout = []\<rparr>))
     = [notice]
   \<and> stdout (snd (clustering stub (stub_points 12) ''MiniBatchKMeans'' 3 \<lparr>rng = 0, stdout = []\<rparr>))
     = []"
proof -
  have h: "''KMeans'' \<notin> set clustering_algorithms"
    by (simp add: clustering_algorithms_def)
  have "10 < length (stub_points 12)" by (simp add: stub_points_def)
  from stub_preprocess [OF this] have p: "\<not> isl (preprocess stub (stub_points 12))"
    by auto
  from unknown_algorithm_falls_back [OF h, of stub "stub_points 12" 3 "\<lparr>rng = 0, stdout = []\<rparr>"] p
  show ?thesis by simp
qed

text \<open>
  C2: with \<open>DBSCAN\<close> the cluster count has no influence: two calls of \<open>clustering\<close>
  that differ in it are equal, in their result and in what they leave behind; and with
  \<open>DBSCAN\<close> selected, \<open>update_clusters\<close> ends the same way and leaves the same data
  source and the same global \<open>X\<close> for any two values of the cluster-count slider.
\<close>

theorem dbscan_ignores_n_clusters:
  "clustering lib X ''DBSCAN'' c1 w = clustering lib X ''DBSCAN'' c2 w
   \<and> fst (update_clusters lib (s\<lparr>algorithm_select := ''DBSCAN'', clusters_slider := v1\<rparr>))
       = fst (update_clusters lib (s\<lparr>algorithm_select := ''DBSCAN'', clusters_slider := v2\<rparr>))
   \<and> source (snd (update_clusters lib (s\<lparr>algorithm_select := ''DBSCAN'', clusters_slider := v1\<rparr>)))
       = source (snd (update_clusters lib (s\<lparr>algorithm_select := ''DBSCAN'', clusters_slider := v2\<rparr>)))
   \<and> global_X (snd (update_clusters lib (s\<lparr>algorithm_select := ''DBSCAN'', clusters_slider := v1\<rparr>)))
       = global_X (snd (update_clusters lib (s\<lparr>algorithm_select := ''DBSCAN'', clusters_slider := v2\<rparr>)))"
proof -
  have e: "clustering lib (global_X s) ''DBSCAN'' (py_int v1) (world s)
         = clustering lib (global_X s) ''DBSCAN'' (py_int v2) (world s)"
    by (rule clustering_DBSCAN)
  show ?thesis
    by (simp add: clustering_DBSCAN [of lib X c1 w c2] update_clusters_def Let_def e
          split: prod.splits sum.splits)
qed



text \<open>
  C8: once the preprocessing has returned, the connectivity matrix is
  \<open>0.5 * (G + G.T)\<close> for \<open>G = kneighbors_graph(X, n_neighbors=10, include_self=False)\<close>
  on the standardized PointSet; it equals its transpose; and it is the connectivity
  argument of the estimator that the \<open>Ward\<close> and the \<open>AgglomerativeClustering\<close> branches
  construct and fit.
\<close>

theorem connectivity_symmetric:
  assumes "preprocess lib X = Inr (Xs, bw, conn)"
  shows "(\<exists>G S. kneighbors_graph lib Xs 10 False = Inr G \<and> madd G (mtranspose G) = Inr S
             \<and> conn = mscale (1 / 2) S)
       \<and> mtranspose conn = conn
       \<and> fst (model ''Ward'' n bw conn) = AgglomerativeClustering n ''ward'' ''euclidean'' conn
       \<and> fst (model ''AgglomerativeClustering'' n bw conn)
           = AgglomerativeClustering n ''average'' ''cityblock'' conn
       \<and> clustering lib X ''Ward'' n w =
           (case fit_labels lib (AgglomerativeClustering n ''ward'' ''euclidean'' conn) Xs (rng w) of
              (Inl e, g) \<Rightarrow> (Inl e, \<lparr>rng = g, stdout = stdout w\<rparr>)
            | (Inr l, g) \<Rightarrow> (Inr (Xs, l), \<lparr>rng = g, stdout = stdout w\<rparr>))
       \<and> clustering lib X ''AgglomerativeClustering'' n w =
           (case fit_labels lib (AgglomerativeClustering n ''average'' ''cityblock'' conn) Xs (rng w) of
              (Inl e, g) \<Rightarrow> (Inl e, \<lparr>rng = g, stdout = stdout w\<rparr>)
            | (Inr l, g) \<Rightarrow> (Inr (Xs, l), \<lparr>rng = g, stdout = stdout w\<rparr>))"
proof -
  have c: "connectivity lib Xs = Inr conn"
    using assms by (simp add: preprocess_Inr)
  from connectivity_Inr [OF c] obtain G where
    G: "kneighbors_graph lib Xs 10 False = Inr G" "nrows G = ncols G"
       "conn = \<lparr>nrows = nrows G, ncols = nrows G,
                entry = (\<lambda>i j. 1 / 2 * (entry G i j + entry G j i))\<rparr>"
    by blast
  have 1: "\<exists>G S. kneighbors_graph lib Xs 10 False = Inr G \<and> madd G (mtranspose G) = Inr S
             \<and> conn = mscale (1 / 2) S"
    using G by (simp add: madd_def mtranspose_def mscale_def)
  have 2: "mtranspose conn = conn"
    by (simp add: G(3) mtranspose_def add.commute)
  show ?thesis
    using 1 2
    by (simp add: clustering_preprocessed [OF assms] model_Ward model_AgglomerativeClustering
          split: prod.splits sum.splits)
qed

theorem connectivity_symmetric_witness:
  "\<exists>Xs conn. preprocess stub (stub_points 12) = Inr (Xs, 1, conn)
      \<and> mtranspose conn = conn \<and> entry conn 0 1 = 1 / 2 \<and> entry conn 1 0 = 1 / 2"
proof -
  have "10 < length (stub_points 12)" by (simp add: stub_points_def)
  from stub_preprocess [OF this] obtain Xs conn where
    p: "preprocess stub (stub_points 12) = Inr (Xs, 1, conn)" and
    e: "entry conn 0 1 = 1 / 2" "entry conn 1 0 = 1 / 2"
    by blast
  from connectivity_symmetric [OF p] have "mtranspose conn = conn" by blast
  with p e show ?thesis by blast
qed

section \<open>Properties of the dataset generator\<close>

text \<open>
  C5: where the library's generators return as many samples as they are asked for,
  \<open>get_dataset\<close> returns, for each of the four dataset names, a PointSet of the
  requested sample count, with a ground-truth LabelAssignment for the first three names
  and \<open>None\<close> for \<open>No Structure\<close>.
\<close>

theorem get_dataset_sample_count:
  assumes "generates lib n" and "dataset \<in> set datasets_names"
  shows "\<exists>X y w'. get_dataset lib dataset n w = (Inr (X, y), w') \<and> int (length X) = n
           \<and> (dataset = ''No Structure'' \<longrightarrow> y = None)
           \<and> (dataset \<noteq> ''No Structure'' \<longrightarrow> (\<exists>l. y = Some l \<and> int (length l) = n))"
proof -
  from assms(1) obtain Xc yc gc where
    c: "make_circles lib n (5 / 10) (5 / 100) (rng w) = (Inr (Xc, yc), gc)"
       "int (length Xc) = n" "int (length yc) = n"
    unfolding generates_def by blast
  from assms(1) obtain Xm ym gm where
    m: "make_moons lib n (5 / 100) (rng w) = (Inr (Xm, ym), gm)"
       "int (length Xm) = n" "int (length ym) = n"
    unfolding generates_def by blast
  from assms(1) obtain Xb yb where
    b: "make_blobs lib n 8 = Inr (Xb, yb)" "int (length Xb) = n" "int (length yb) = n"
    unfolding generates_def by blast
  from assms(1) obtain Xr gr where
    r: "random_rand lib n 2 (rng w) = (Inr Xr, gr)" "int (length Xr) = n"
    unfolding generates_def by blast
  from assms(2) consider "dataset = ''Noisy Circles''" | "dataset = ''Noisy Moons''"
    | "dataset = ''Blobs''" | "dataset = ''No Structure''"
    by (auto simp: datasets_names_def)
  then show ?thesis
  proof cases
    case 1
    then show ?thesis using c by (simp add: get_dataset_def)
  next
    case 2
    then show ?thesis using m by (simp add: get_dataset_def)
  next
    case 3
    then show ?thesis using b by (simp add: get_dataset_def)
  next
    case 4
    then show ?thesis using r by (simp add: get_dataset_def)
  qed
qed

theorem get_dataset_sample_count_witness:
  "(\<exists>X l w'. get_dataset stub ''Blobs'' 12 \<lparr>rng = 0, stdout = []\<rparr> = (Inr (X, Some l), w')
       \<and> length X = 12 \<and> length l = 12)
   \<and> (\<exists>X w'. get_dataset stub ''No Structure'' 12 \<lparr>rng = 0, stdout = []\<rparr> = (Inr (X, None), w')
       \<and> length X = 12)"
proof -
  have g: "generates stub 12"
    by (simp add: generates_def stub_def stub_points_def stub_labels_def)
  have b: "''Blobs'' \<in> set datasets_names" and n: "''No Structure'' \<in> set datasets_names"
    by (simp_all add: datasets_names_def)
  from get_dataset_sample_count [OF g b, of "\<lparr>rng = 0, stdout = []\<rparr>"]
  have 1: "\<exists>X l w'. get_dataset stub ''Blobs'' 12 \<lparr>rng = 0, stdout = []\<rparr> = (Inr (X, Some l), w')
       \<and> length X = 12 \<and> length l = 12"
    by auto
  from get_dataset_sample_count [OF g n, of "\<lparr>rng = 0, stdout = []\<rparr>"]
  have 2: "\<exists>X w'. get_dataset stub ''No Structure'' 12 \<lparr>rng = 0, stdout = []\<rparr> = (Inr (X, None), w')
       \<and> length X = 12"
    by auto
  from 1 2 show ?thesis by blast
qed

text \<open>
  C9: any name other than \<open>Noisy Circles\<close>, \<open>Noisy Moons\<close> and \<open>Blobs\<close> reaches the
  \<open>else\<close> branch: the points are those \<open>np.random.rand(n_samples, 2)\<close> returns, there is
  no LabelAssignment, and nothing is printed.
\<close>

theorem get_dataset_other_names:
  assumes "dataset \<notin> {''Noisy Circles'', ''Noisy Moons'', ''Blobs''}"
  shows "get_dataset lib dataset n w =
           (case random_rand lib n 2 (rng w) of
              (Inl e, g) \<Rightarrow> (Inl e, w\<lparr>rng := g\<rparr>)
            | (Inr X, g) \<Rightarrow> (Inr (X, None), w\<lparr>rng := g\<rparr>))
       \<and> stdout (snd (get_dataset lib dataset n w)) = stdout w
       \<and> (generates lib n \<longrightarrow>
            (\<exists>X w'. get_dataset lib dataset n w = (Inr (X, None), w') \<and> int (length X) = n))"
proof -
  have e: "get_dataset lib dataset n w =
           (case random_rand lib n 2 (rng w) of
              (Inl e, g) \<Rightarrow> (Inl e, w\<lparr>rng := g\<rparr>)
            | (Inr X, g) \<Rightarrow> (Inr (X, None), w\<lparr>rng := g\<rparr>))"
    using assms by (simp add: get_dataset_def)
  have s: "stdout (snd (get_dataset lib dataset n w)) = stdout w"
    unfolding e by (simp split: prod.splits sum.splits)
  have g: "\<exists>X w'. get_dataset lib dataset n w = (Inr (X, None), w') \<and> int (length X) = n"
    if "generates lib n"
  proof -
    from that obtain Xr gr where
      "random_rand lib n 2 (rng w) = (Inr Xr, gr)" "int (length Xr) = n"
      unfolding generates_def by blast
    then show ?thesis unfolding e by simp
  qed
  from e s g show ?thesis by blast
qed

theorem get_dataset_other_names_witness:
  "get_dataset stub ''Swiss Roll'' 12 \<lparr>rng = 0, stdout = []\<rparr>
     = (Inr (stub_points 12, None), \<lparr>rng = 1, stdout = []\<rparr>)"
proof -
  have h: "''Swiss Roll'' \<notin> {''Noisy Circles'', ''Noisy Moons'', ''Blobs''}"
    by simp
  from get_dataset_other_names [OF h, of stub 12 "\<lparr>rng = 0, stdout = []\<rparr>"]
  show ?thesis by (simp add: stub_def)
qed

section \<open>Properties of the callbacks\<close>

text \<open>
  C7: when \<open>update_algorithm\<close> runs to its end, which it does exactly when \<open>clustering\<close>
  and the recolor step return, the plot title is the selected algorithm name;
  \<open>update_dataset\<close> leaves the plot title as it was, however it ends, and when it runs
  to its end the data source is the old one with the columns \<open>x\<close>, \<open>y\<close> and \<open>colors\<close>
  overwritten from the new global \<open>X\<close>.
\<close>

theorem plot_title_updates:
  "(\<forall>s'. update_algorithm lib s = (None, s') \<longrightarrow> plot_title s' = Some (algorithm_select s))
   \<and> (fst (update_algorithm lib s) = None \<longleftrightarrow>
        (\<exists>X yp w cs.
            clustering lib (global_X s) (algorithm_select s) (py_int (clusters_slider s)) (world s)
              = (Inr (X, yp), w)
          \<and> recolor yp = Inr cs))
   \<and> plot_title (snd (update_dataset lib s)) = plot_title s
   \<and> (\<forall>s'. update_dataset lib s = (None, s') \<longrightarrow>
        (\<exists>cs. source s' = set_columns (global_X s') cs (source s)))"
proof (intro conjI allI impI)
  fix s' assume "update_algorithm lib s = (None, s')"
  from update_algorithm_None [OF this]
  show "plot_title s' = Some (algorithm_select s)" by auto
next
  show "fst (update_algorithm lib s) = None \<longleftrightarrow>
        (\<exists>X yp w cs.
            clustering lib (global_X s) (algorithm_select s) (py_int (clusters_slider s)) (world s)
              = (Inr (X, yp), w)
          \<and> recolor yp = Inr cs)"
  proof
    assume "fst (update_algorithm lib s) = None"
    then obtain s' where "update_algorithm lib s = (None, s')"
      by (cases "update_algorithm lib s") simp
    from update_algorithm_None [OF this] show "\<exists>X yp w cs.
            clustering lib (global_X s) (algorithm_select s) (py_int (clusters_slider s)) (world s)
              = (Inr (X, yp), w)
          \<and> recolor yp = Inr cs" by blast
  next
    assume "\<exists>X yp w cs.
            clustering lib (global_X s) (algorithm_select s) (py_int (clusters_slider s)) (world s)
              = (Inr (X, yp), w)
          \<and> recolor yp = Inr cs"
    then obtain X yp w cs where
      "clustering lib (global_X s) (algorithm_select s) (py_int (clusters_slider s)) (world s)
              = (Inr (X, yp), w)" "recolor yp = Inr cs" by blast
    from update_algorithm_completes [OF this] show "fst (update_algorithm lib s) = None"
      by simp
  qed
next
  show "plot_title (snd (update_dataset lib s)) = plot_title s"
    by (rule update_dataset_title)
next
  fix s' assume "update_dataset lib s = (None, s')"
  from update_dataset_None [OF this]
  show "\<exists>cs. source s' = set_columns (global_X s') cs (source s)" by auto
qed

theorem plot_title_updates_witness:
  "fst (update_algorithm stub stub_session) = None
   \<and> plot_title (snd (update_algorithm stub stub_session)) = Some ''DBSCAN''
   \<and> plot_title (snd (update_dataset stub stub_session)) = None"
proof -
  have "10 < length (stub_points 12)" by (simp add: length_stub_points)
  from stub_clustering_DBSCAN [OF this, of 2 "\<lparr>rng = 0, stdout = []\<rparr>"] obtain Xs cs where
    "clustering stub (stub_points 12) ''DBSCAN'' 2 \<lparr>rng = 0, stdout = []\<rparr>
       = (Inr (Xs, replicate (length (stub_points 12)) (- 1)), \<lparr>rng = 0, stdout = []\<rparr>)"
    "recolor (replicate (length (stub_points 12)) (- 1)) = Inr cs"
    by blast
  then have ev: "\<exists>X yp w cs.
      clustering stub (global_X stub_session) (algorithm_select stub_session)
        (py_int (clusters_slider stub_session)) (world stub_session) = (Inr (X, yp), w)
      \<and> recolor yp = Inr cs"
    by (simp add: stub_session_def py_int_numeral)
  note t = plot_title_updates [of stub stub_session]
  from t ev have n: "fst (update_algorithm stub stub_session) = None" by blast
  then obtain s' where s': "update_algorithm stub stub_session = (None, s')"
    by (cases "update_algorithm stub stub_session") simp
  with t have "plot_title s' = Some (algorithm_select stub_session)" by blast
  then have a: "plot_title (snd (update_algorithm stub stub_session)) = Some ''DBSCAN''"
    using s' by (simp add: stub_session_def)
  from t have "plot_title (snd (update_dataset stub stub_session)) = plot_title stub_session"
    by blast
  then have d: "plot_title (snd (update_dataset stub stub_session)) = None"
    by (simp add: stub_session_def)
  from n a d show ?thesis by blast
qed

text \<open>
  C3: \<open>update_samples\<close> assigns \<open>X\<close> and \<open>y\<close> without a \<open>global\<close> statement, unlike the
  other three callbacks, so it never changes the module's \<open>X\<close> and \<open>y\<close>
  (\<open>update_samples_globals\<close>).  On the session the script starts with and the
  sample-count slider moved to 2000, the callback runs to its end, the data source then
  holds 2000 points, and the global \<open>X\<close> still holds the 1500 points of the start.
\<close>

theorem update_samples_leaves_global_X_stale:
  "\<exists>s0 s'. startup stub = Inr s0
      \<and> update_samples stub (s0\<lparr>samples_slider := 2000\<rparr>) = (None, s')
      \<and> length (data_x (source s')) = 2000
      \<and> length (global_X s') = 1500"
proof -
  from stub_startup obtain s0 where
    s0: "startup stub = Inr s0" "length (global_X s0) = 1500"
      "dataset_select s0 = ''Noisy Circles''" "algorithm_select s0 = ''MiniBatchKMeans''"
      "clusters_slider s0 = 2"
    by blast
  let ?s = "s0\<lparr>samples_slider := 2000\<rparr>"
  have gd: "get_dataset stub (dataset_select ?s) (py_int (samples_slider ?s)) (world ?s)
      = (Inr (stub_points 2000, Some (stub_labels 2000)), (world s0)\<lparr>rng := Suc (rng (world s0))\<rparr>)"
    by (simp add: s0 py_int_numeral get_dataset_def stub_def)
  have "10 < length (stub_points 2000)" by (simp add: length_stub_points)
  from stub_clustering_MiniBatchKMeans [OF this, of 2 "(world s0)\<lparr>rng := Suc (rng (world s0))\<rparr>"]
  obtain Xs yp cs g where
    c: "clustering stub (stub_points 2000) ''MiniBatchKMeans'' 2
          ((world s0)\<lparr>rng := Suc (rng (world s0))\<rparr>)
        = (Inr (Xs, yp), \<lparr>rng = g, stdout = stdout ((world s0)\<lparr>rng := Suc (rng (world s0))\<rparr>)\<rparr>)"
    and l: "length Xs = length (stub_points 2000)" and r: "recolor yp = Inr cs"
    by auto
  have c': "clustering stub (stub_points 2000) (algorithm_select ?s)
          (py_int (clusters_slider ?s)) ((world s0)\<lparr>rng := Suc (rng (world s0))\<rparr>)
        = (Inr (Xs, yp), \<lparr>rng = g, stdout = stdout ((world s0)\<lparr>rng := Suc (rng (world s0))\<rparr>)\<rparr>)"
    using c by (simp add: s0 py_int_numeral)
  note u = update_samples_completes [OF gd c' r]
  show ?thesis
    using s0(1,2) u l by (simp add: set_columns_def length_stub_points)
qed

end
